theory Spec2Isabelle
  imports
    Main
    "HOL-Library.Multiset"
    "HOL-Library.Char_ord"
    "HOL-Library.List_Lexorder"
    "HOL-Library.Product_Lexorder"
    "HOL-Library.Option_ord"
begin

section \<open>The worksheet behind the help queue\<close>

text \<open>
  \<^verbatim>\<open>app.py\<close> keeps the whole queue in one worksheet of a spreadsheet and reaches it
  through six calls of the gspread client: \<^verbatim>\<open>row_values\<close>, \<^verbatim>\<open>update\<close>, \<^verbatim>\<open>append_row\<close>,
  \<^verbatim>\<open>get_all_records\<close>, \<^verbatim>\<open>update_cell\<close> and \<^verbatim>\<open>resize\<close>. The client is a library, not part
  of the program, so this section fixes the model of a worksheet that the program's
  functions are then written against.

  A cell holds a number or a text; the empty cell is the empty text. \<^verbatim>\<open>get_all_records\<close>
  hands back numbers for numeric cells, so \<open>Str s\<close> stands for a text that does not read
  as a number.
\<close>

datatype cell = Num int | Str string

text \<open>
  Ordering of cell values when a column is sorted: numbers by value, texts
  lexicographically by character code, numbers before texts.
\<close>

instantiation cell :: linorder
begin

fun less_eq_cell :: "cell \<Rightarrow> cell \<Rightarrow> bool" where
  "less_eq_cell (Num a) (Num b) = (a \<le> b)"
| "less_eq_cell (Num a) (Str t) = True"
| "less_eq_cell (Str s) (Num b) = False"
| "less_eq_cell (Str s) (Str t) = (s \<le> t)"

definition less_cell :: "cell \<Rightarrow> cell \<Rightarrow> bool" where
  "less_cell x y = (x \<le> y \<and> \<not> y \<le> x)"

instance
proof
  fix x y z :: cell
  show "(x < y) = (x \<le> y \<and> \<not> y \<le> x)"
    by (simp add: less_cell_def)
  show "x \<le> x"
    by (cases x) simp_all
  show "x \<le> y \<Longrightarrow> y \<le> z \<Longrightarrow> x \<le> z"
    by (cases x; cases y; cases z) simp_all
  show "x \<le> y \<Longrightarrow> y \<le> x \<Longrightarrow> x = y"
    by (cases x; cases y) simp_all
  show "x \<le> y \<or> y \<le> x"
    by (cases x; cases y) auto
qed

end

type_synonym row = "cell list"

text \<open>
  Every call that changes the sheet is also recorded, so that "performs no write" can be
  told apart from "writes what was already there".
\<close>

datatype api_write =
    Update_A1_E1 row
  | Append_row row
  | Update_cell nat nat cell
  | Resize nat

text \<open>
  \<open>grid\<close> lists the rows from the top; row 1, the header row, is the first element.
  A row lists its cells from column A; cells to the right of the list are empty.
\<close>

record worksheet =
  grid :: "row list"
  writes :: "api_write list"

definition blank :: cell where
  "blank = Str []"

text \<open>A row is read without its trailing empty cells.\<close>

definition rstrip :: "row \<Rightarrow> row" where
  "rstrip r = rev (dropWhile (\<lambda>c. c = blank) (rev r))"

text \<open>\<^verbatim>\<open>ws.row_values(n)\<close>, rows counted from 1; a row below the last one is empty.\<close>

definition row_values :: "worksheet \<Rightarrow> nat \<Rightarrow> row" where
  "row_values ws n =
     (if 1 \<le> n \<and> n \<le> length (grid ws) then rstrip (grid ws ! (n - 1)) else [])"

text \<open>
  \<^verbatim>\<open>ws.update("A1:E1", [values])\<close>: the five cells A1 to E1 are overwritten; whatever row 1
  holds from column F on stays.
\<close>

definition update_A1_E1 :: "worksheet \<Rightarrow> row \<Rightarrow> worksheet" where
  "update_A1_E1 ws vals =
     ws\<lparr>grid := (case grid ws of
                   [] \<Rightarrow> [vals]
                 | r # rs \<Rightarrow> (vals @ drop 5 r) # rs),
        writes := writes ws @ [Update_A1_E1 vals]\<rparr>"

text \<open>\<^verbatim>\<open>ws.append_row(row)\<close>: one more row below the last one.\<close>

definition append_row :: "worksheet \<Rightarrow> row \<Rightarrow> worksheet" where
  "append_row ws r = ws\<lparr>grid := grid ws @ [r], writes := writes ws @ [Append_row r]\<rparr>"

text \<open>
  A record is the dictionary \<^verbatim>\<open>dict(zip(keys, row))\<close>, kept as the list of its bindings in
  column order. \<^verbatim>\<open>row.get(k)\<close> is \<open>get\<close>: when a key occurs twice the later binding wins,
  as in a Python dictionary.
\<close>

type_synonym pyrecord = "(cell \<times> cell) list"

definition get :: "pyrecord \<Rightarrow> cell \<Rightarrow> cell option" where
  "get r k = map_of (rev r) k"

text \<open>A short row is filled with empty cells up to the width of the header.\<close>

definition pad :: "nat \<Rightarrow> row \<Rightarrow> row" where
  "pad n r = r @ replicate (n - length r) blank"

text \<open>
  \<^verbatim>\<open>ws.get_all_records()\<close>: row 1 gives the keys, every row below it one record, in sheet
  order. Cells to the right of the last header cell carry no key of the schema and are
  left out of the record.
\<close>

definition get_all_records :: "worksheet \<Rightarrow> pyrecord list" where
  "get_all_records ws =
     (case grid ws of
        [] \<Rightarrow> []
      | keys # rows \<Rightarrow> map (\<lambda>r. zip keys (pad (length keys) r)) rows)"



text \<open>\<^verbatim>\<open>ws.resize(rows=n)\<close>: the sheet keeps its first \<open>n\<close> rows.\<close>

definition resize :: "worksheet \<Rightarrow> nat \<Rightarrow> worksheet" where
  "resize ws n =
     ws\<lparr>grid := take n (grid ws) @ replicate (n - length (grid ws)) [],
        writes := writes ws @ [Resize n]\<rparr>"

text \<open>Reading one cell of the sheet, row and column counted from 1.\<close>

definition nth_cell :: "row \<Rightarrow> nat \<Rightarrow> cell" where
  "nth_cell r c = (if c < length r then r ! c else blank)"

definition cell_at :: "worksheet \<Rightarrow> nat \<Rightarrow> nat \<Rightarrow> cell" where
  "cell_at ws r c =
     (if 1 \<le> r \<and> r \<le> length (grid ws) \<and> 1 \<le> c
      then nth_cell (grid ws ! (r - 1)) (c - 1) else blank)"


section \<open>Data functions of \<^verbatim>\<open>app.py\<close>\<close>

text \<open>
  \<^verbatim>\<open>get_worksheet()\<close> returns the one cached handle; in the model the worksheet is passed
  in and the changed worksheet is returned.
\<close>

definition expected :: row where
  "expected = [Str ''id'', Str ''name'', Str ''rating'', Str ''timestamp'', Str ''status'']"

text \<open>
  \<^verbatim>\<open>
  def ensure_headers(ws):
      existing = ws.row_values(1)
      expected = ["id", "name", "rating", "timestamp", "status"]
      if existing != expected:
          ws.update("A1:E1", [expected])
  \<close>
\<close>

definition ensure_headers :: "worksheet \<Rightarrow> worksheet" where
  "ensure_headers ws =
     (let existing = row_values ws 1 in
      if existing \<noteq> expected then update_A1_E1 ws expected else ws)"

text \<open>
  \<^verbatim>\<open>
  def add_help_request(name: str, rating: int):
      ws = get_worksheet()
      ensure_headers(ws)
      request_id = str(uuid.uuid4())
      now = datetime.utcnow().isoformat()
      row = [request_id, name, int(rating), now, "pending"]
      ws.append_row(row)
  \<close>
  The identifier drawn by \<^verbatim>\<open>uuid4\<close> and the clock reading are inputs of the model.
  \<open>rating\<close> is an \<^verbatim>\<open>int\<close>, on which \<^verbatim>\<open>int(rating)\<close> is the identity. The function has no
  \<^verbatim>\<open>raise\<close> and no test of its arguments.
\<close>

definition add_help_request :: "string \<Rightarrow> int \<Rightarrow> string \<Rightarrow> string \<Rightarrow> worksheet \<Rightarrow> worksheet" where
  "add_help_request name rating request_id now ws0 =
     (let ws = ensure_headers ws0;
          row = [Str request_id, Str name, Num rating, Str now, Str ''pending'']
      in append_row ws row)"

text \<open>
  \<^verbatim>\<open>
  def load_requests() -> pd.DataFrame:
      ws = get_worksheet()
      ensure_headers(ws)
      records = ws.get_all_records()
      if not records:
          return pd.DataFrame(columns=["id", "name", "rating", "timestamp", "status"])
      df = pd.DataFrame(records)
      return df
  \<close>
  The data frame is the list of its records; the frame built for an empty sheet has no
  record.
\<close>

definition load_requests :: "worksheet \<Rightarrow> worksheet \<times> pyrecord list" where
  "load_requests ws0 =
     (let ws = ensure_headers ws0;
          records = get_all_records ws
      in if records = [] then (ws, []) else (ws, records))"



text \<open>
  \<^verbatim>\<open>
  def clear_all():
      ws = get_worksheet()
      ws.resize(rows=1)  # keep header row only
  \<close>
\<close>

definition clear_all :: "worksheet \<Rightarrow> worksheet" where
  "clear_all ws = resize ws 1"


section \<open>The pending list of the instructor view\<close>

text \<open>
  The listing of pending requests is the first half of \<^verbatim>\<open>show_instructor_view\<close>:
  \<^verbatim>\<open>
      df = load_requests()
      if df.empty:
          st.info("No help requests yet.")
          return
      df_pending = df[df["status"] == "pending"].copy()
      if df_pending.empty:
          st.success("No pending requests.")
          return
      df_pending = df_pending.sort_values(["rating", "timestamp"])
  \<close>
  On both early returns nothing is listed. \<^verbatim>\<open>sort_values\<close> on two columns orders the
  rows by the pair of their values and keeps rows with equal pairs in frame order.
\<close>

definition is_pending :: "pyrecord \<Rightarrow> bool" where
  "is_pending r = (get r (Str ''status'') = Some (Str ''pending''))"

definition priority :: "pyrecord \<Rightarrow> cell option \<times> cell option" where
  "priority r = (get r (Str ''rating''), get r (Str ''timestamp''))"

definition sort_values :: "pyrecord list \<Rightarrow> pyrecord list" where
  "sort_values df = sort_key priority df"

definition list_pending :: "worksheet \<Rightarrow> worksheet \<times> pyrecord list" where
  "list_pending ws0 =
     (let (ws, df) = load_requests ws0 in
      if df = [] then (ws, [])
      else
        let df_pending = filter is_pending df in
        if df_pending = [] then (ws, [])
        else (ws, sort_values df_pending))"


section \<open>The student view\<close>

text \<open>
  \<^verbatim>\<open>
  def show_student_view():
      st.title("Request Help")
      name = st.session_state.get("user")
      st.write(f"Logged in as **{name}**")
      if st.button("Request Help"):
          add_help_request(name, rating)
          st.success("Your help request has been submitted")
  \<close>
  The call reads two names. Python looks a name up among the locals of the function
  (the names the function assigns: here only \<^verbatim>\<open>name\<close>), then among the names bound at
  module level, then among the built-ins, and raises \<^verbatim>\<open>NameError\<close> when all three miss.
\<close>

datatype pyval = PyNone | PyInt int | PyStr string | PyObj string

datatype error = NameError string | TypeError

datatype ui = Title string | Write_text string | Success string

text \<open>Every name that \<^verbatim>\<open>app.py\<close> binds at module level: its imports, constants and functions.\<close>

definition module_globals :: "string list" where
  "module_globals =
     [''st'', ''pd'', ''gspread'', ''Credentials'', ''datetime'', ''uuid'', ''json'',
      ''STUDENTS'', ''STUDENT_LEVELS'', ''SHEET_NAME'',
      ''get_worksheet'', ''ensure_headers'', ''add_help_request'', ''load_requests'',
      ''mark_as_helped'', ''clear_all'', ''show_login'', ''show_student_level'',
      ''show_student_view'', ''show_instructor_view'', ''main'']"

text \<open>The built-in functions of Python 3.\<close>

definition builtins :: "string list" where
  "builtins =
     [''abs'', ''aiter'', ''all'', ''anext'', ''any'', ''ascii'', ''bin'', ''bool'',
      ''breakpoint'', ''bytearray'', ''bytes'', ''callable'', ''chr'', ''classmethod'',
      ''compile'', ''complex'', ''delattr'', ''dict'', ''dir'', ''divmod'', ''enumerate'',
      ''eval'', ''exec'', ''filter'', ''float'', ''format'', ''frozenset'', ''getattr'',
      ''globals'', ''hasattr'', ''hash'', ''help'', ''hex'', ''id'', ''input'', ''int'',
      ''isinstance'', ''issubclass'', ''iter'', ''len'', ''list'', ''locals'', ''map'',
      ''max'', ''memoryview'', ''min'', ''next'', ''object'', ''oct'', ''open'', ''ord'',
      ''pow'', ''print'', ''property'', ''range'', ''repr'', ''reversed'', ''round'',
      ''set'', ''setattr'', ''slice'', ''sorted'', ''staticmethod'', ''str'', ''sum'',
      ''super'', ''tuple'', ''type'', ''vars'', ''zip'', ''__import__'']"

definition lookup_name :: "(string \<times> pyval) list \<Rightarrow> string \<Rightarrow> error + pyval" where
  "lookup_name locals x =
     (case map_of locals x of
        Some v \<Rightarrow> Inr v
      | None \<Rightarrow>
          if x \<in> set module_globals \<or> x \<in> set builtins then Inr (PyObj x)
          else Inl (NameError x))"

type_synonym session_state = "string \<Rightarrow> pyval option"

text \<open>
  \<open>pressed\<close> is what \<^verbatim>\<open>st.button("Request Help")\<close> returns in this run of the script.
  \<^verbatim>\<open>None\<close> as a name would be written as an empty cell.
\<close>

definition show_student_view ::
  "session_state \<Rightarrow> bool \<Rightarrow> string \<Rightarrow> string \<Rightarrow> worksheet \<Rightarrow> error + worksheet \<times> ui list" where
  "show_student_view session pressed request_id now ws =
     (let name = (case session ''user'' of None \<Rightarrow> PyNone | Some v \<Rightarrow> v);
          locals = [(''name'', name)];
          shown = [Title ''Request Help'', Write_text ''Logged in as'']
      in
      if pressed then
        (case lookup_name locals ''name'' of
           Inl e \<Rightarrow> Inl e
         | Inr a1 \<Rightarrow>
             (case lookup_name locals ''rating'' of
                Inl e \<Rightarrow> Inl e
              | Inr a2 \<Rightarrow>
                  (case (a1, a2) of
                     (PyStr n, PyInt r) \<Rightarrow>
                       Inr (add_help_request n r request_id now ws,
                            shown @ [Success ''Your help request has been submitted''])
                   | (PyNone, PyInt r) \<Rightarrow>
                       Inr (add_help_request [] r request_id now ws,
                            shown @ [Success ''Your help request has been submitted''])
                   | _ \<Rightarrow> Inl TypeError)))
      else Inr (ws, shown))"


section \<open>Example sheets\<close>

definition sheet_header_only :: worksheet where
  "sheet_header_only = \<lparr>grid = [expected], writes = []\<rparr>"

definition sheet_one_request :: worksheet where
  "sheet_one_request =
     \<lparr>grid = [expected,
              [Str ''u1'', Str ''Anthony'', Num 3, Str ''2024-01-01T09:00:00'', Str ''pending'']],
      writes = []\<rparr>"

definition sheet_wrong_header :: worksheet where
  "sheet_wrong_header =
     \<lparr>grid = [[Str ''who'', Str ''level''], [Str ''u1'', Num 3]], writes = []\<rparr>"


definition sheet_notes_column :: worksheet where
  "sheet_notes_column =
     \<lparr>grid = [[Str ''id'', Str ''name'', Str ''rating'', Str ''timestamp'', Str ''status'', Str ''notes'']],
      writes = []\<rparr>"









section \<open>The header row\<close>

lemma rstrip_Nil [simp]: "rstrip [] = []"
  by (simp add: rstrip_def)

lemma rstrip_split: "\<exists>bs. r = rstrip r @ bs \<and> set bs \<subseteq> {blank}"
proof -
  have "rev r = takeWhile (\<lambda>c. c = blank) (rev r) @ dropWhile (\<lambda>c. c = blank) (rev r)"
    by simp
  then have "r = rstrip r @ rev (takeWhile (\<lambda>c. c = blank) (rev r))"
    unfolding rstrip_def by (metis rev_append rev_rev_ident)
  moreover have "set (rev (takeWhile (\<lambda>c. c = blank) (rev r))) \<subseteq> {blank}"
    by (auto dest: set_takeWhileD)
  ultimately show ?thesis by blast
qed

lemma rstrip_blanks: "set bs \<subseteq> {blank} \<Longrightarrow> rstrip (xs @ bs) = rstrip xs"
proof -
  assume "set bs \<subseteq> {blank}"
  then have "dropWhile (\<lambda>c. c = blank) (rev bs @ rev xs) = dropWhile (\<lambda>c. c = blank) (rev xs)"
    by (intro dropWhile_append2) auto
  then show ?thesis
    by (simp add: rstrip_def)
qed

lemma rstrip_all_blank: "set bs \<subseteq> {blank} \<Longrightarrow> rstrip bs = []"
  using rstrip_blanks [of bs "[]"] by simp

lemma dropWhile_stop: "zs \<noteq> [] \<Longrightarrow> \<not> P (hd zs) \<Longrightarrow> dropWhile P (as @ zs) = dropWhile P as @ zs"
  by (induction as) (cases zs; simp)+

lemma rstrip_keep: "xs \<noteq> [] \<Longrightarrow> last xs \<noteq> blank \<Longrightarrow> rstrip (xs @ ys) = xs @ rstrip ys"
  by (simp add: rstrip_def dropWhile_stop hd_rev)

lemma rstrip_expected [simp]: "rstrip expected = expected"
  by (simp add: rstrip_def expected_def blank_def)

lemma rstrip_expected_app: "rstrip (expected @ ys) = expected @ rstrip ys"
  by (rule rstrip_keep) (simp_all add: expected_def blank_def)

lemma length_expected [simp]: "length expected = 5"
  by (simp add: expected_def)

lemma rstrip_drop_short: "length (rstrip r) \<le> n \<Longrightarrow> rstrip (drop n r) = []"
proof -
  assume n: "length (rstrip r) \<le> n"
  obtain bs where r: "r = rstrip r @ bs" and bs: "set bs \<subseteq> {blank}"
    using rstrip_split by blast
  have "drop n r = drop n (rstrip r @ bs)" using r by simp
  also have "\<dots> = drop (n - length (rstrip r)) bs" using n by simp
  finally have "set (drop n r) \<subseteq> {blank}"
    using bs by (metis set_drop_subset subset_trans)
  then show ?thesis by (rule rstrip_all_blank)
qed

lemma row_values_update_A1_E1:
  "row_values (update_A1_E1 ws expected) (Suc 0) = expected @ rstrip (drop 5 (case grid ws of [] \<Rightarrow> [] | r # rs \<Rightarrow> r))"
  by (cases "grid ws") (simp_all add: row_values_def update_A1_E1_def rstrip_expected_app)

lemma grid_update_twice:
  "grid (update_A1_E1 (update_A1_E1 ws expected) expected) = grid (update_A1_E1 ws expected)"
  by (cases "grid ws") (simp_all add: update_A1_E1_def)

lemma row_values_1_Cons: "grid ws = r # rs \<Longrightarrow> row_values ws (Suc 0) = rstrip r"
  by (simp add: row_values_def)

lemma row_values_1_Nil: "grid ws = [] \<Longrightarrow> row_values ws (Suc 0) = []"
  by (simp add: row_values_def)

lemma ensure_headers_first_five: "take 5 (row_values (ensure_headers ws) (Suc 0)) = expected"
  by (simp add: ensure_headers_def Let_def row_values_update_A1_E1)

lemma ensure_headers_grid_twice:
  "grid (ensure_headers (ensure_headers ws)) = grid (ensure_headers ws)"
proof (cases "row_values ws (Suc 0) = expected")
  case True
  then show ?thesis by (simp add: ensure_headers_def)
next
  case False
  then have e: "ensure_headers ws = update_A1_E1 ws expected"
    by (simp add: ensure_headers_def)
  show ?thesis
    unfolding e by (simp add: ensure_headers_def Let_def grid_update_twice)
qed

lemma ensure_headers_narrow:
  assumes "length (row_values ws (Suc 0)) \<le> 5"
  shows "row_values (ensure_headers ws) (Suc 0) = expected"
proof (cases "row_values ws (Suc 0) = expected")
  case True
  then show ?thesis by (simp add: ensure_headers_def)
next
  case False
  have "rstrip (drop 5 (case grid ws of [] \<Rightarrow> [] | r # rs \<Rightarrow> r)) = []"
  proof (cases "grid ws")
    case Nil
    then show ?thesis by simp
  next
    case (Cons r rs)
    with assms have "length (rstrip r) \<le> 5" by (simp add: row_values_1_Cons)
    then show ?thesis using Cons by (simp add: rstrip_drop_short)
  qed
  with False show ?thesis
    by (simp add: ensure_headers_def row_values_update_A1_E1)
qed

lemma ensure_headers_ok: "row_values ws (Suc 0) = expected \<Longrightarrow> ensure_headers ws = ws"
  by (simp add: ensure_headers_def)

text \<open>
  C8, as the code has it. \<open>ensure_headers\<close> writes the range A1:E1 and nothing else. After
  one call the first five cells of row 1 are the schema, on every sheet, and a second
  call leaves every cell as the first call left it. When row 1 holds nothing to the right
  of column E, row 1 then reads exactly as the schema and the second call performs no
  write at all.
\<close>

theorem ensure_headers_idempotent:
  "take 5 (row_values (ensure_headers ws) 1) = expected
   \<and> grid (ensure_headers (ensure_headers ws)) = grid (ensure_headers ws)
   \<and> (length (row_values ws 1) \<le> 5 \<longrightarrow>
        row_values (ensure_headers ws) 1 = expected
        \<and> ensure_headers (ensure_headers ws) = ensure_headers ws)"
  by (simp add: ensure_headers_first_five ensure_headers_grid_twice ensure_headers_narrow
      ensure_headers_ok)

text \<open>A two-column header is replaced by the schema; the second call changes nothing.\<close>

theorem ensure_headers_idempotent_witness:
  "length (row_values sheet_wrong_header 1) = 2
   \<and> row_values (ensure_headers sheet_wrong_header) 1 = expected
   \<and> ensure_headers (ensure_headers sheet_wrong_header) = ensure_headers sheet_wrong_header
   \<and> grid (ensure_headers sheet_wrong_header) = [expected, [Str ''u1'', Num 3]]"
proof -
  have l: "length (row_values sheet_wrong_header 1) = 2"
    by (simp add: sheet_wrong_header_def row_values_def rstrip_def blank_def)
  have g: "grid (ensure_headers sheet_wrong_header) = [expected, [Str ''u1'', Num 3]]"
    by (simp add: sheet_wrong_header_def ensure_headers_def row_values_def rstrip_def blank_def
        expected_def update_A1_E1_def)
  from l g ensure_headers_idempotent [of sheet_wrong_header] show ?thesis by simp
qed

text \<open>
  C8, as the specification words it, fails on a sheet whose row 1 is the schema followed
  by a sixth cell: \<open>row_values\<close> returns six values, which never equal the five of the
  schema, so the header row is not the schema after the call and every further call
  writes A1:E1 again.
\<close>

theorem ensure_headers_sixth_column:
  "row_values (ensure_headers sheet_notes_column) 1 \<noteq> expected
   \<and> ensure_headers (ensure_headers sheet_notes_column) \<noteq> ensure_headers sheet_notes_column
   \<and> writes (ensure_headers (ensure_headers sheet_notes_column)) =
       [Update_A1_E1 expected, Update_A1_E1 expected]"
  by (simp add: sheet_notes_column_def ensure_headers_def row_values_def rstrip_def blank_def
      expected_def update_A1_E1_def)


section \<open>Submitting a request\<close>

text \<open>
  C1, as the code has it: \<open>add_help_request\<close> tests neither the rating nor the name.
  For every name, the empty one included, and every integer rating, inside or outside
  1 to 10, it succeeds: it ensures the header and appends exactly the one row
  \<open>[request_id, name, rating, now, pending]\<close>, by a single \<open>append_row\<close>.
\<close>

theorem add_help_request_appends:
  "grid (add_help_request name rating request_id now ws) =
     grid (ensure_headers ws) @
       [[Str request_id, Str name, Num rating, Str now, Str ''pending'']]
   \<and> writes (add_help_request name rating request_id now ws) =
     writes (ensure_headers ws) @
       [Append_row [Str request_id, Str name, Num rating, Str now, Str ''pending'']]"
  by (simp add: add_help_request_def append_row_def Let_def)

text \<open>
  C1, as the specification words it, fails: rating 0, rating 11 and the empty name do not
  raise \<^verbatim>\<open>ValidationError\<close>; each appends its row to a sheet that holds the header only.
\<close>

theorem add_help_request_no_validation:
  "grid (add_help_request ''Anthony'' 0 ''u1'' ''2024-01-01T09:00:00'' sheet_header_only) =
     [expected, [Str ''u1'', Str ''Anthony'', Num 0, Str ''2024-01-01T09:00:00'', Str ''pending'']]
   \<and> grid (add_help_request ''Anthony'' 11 ''u2'' ''2024-01-01T09:00:00'' sheet_header_only) =
     [expected, [Str ''u2'', Str ''Anthony'', Num 11, Str ''2024-01-01T09:00:00'', Str ''pending'']]
   \<and> grid (add_help_request [] 5 ''u3'' ''2024-01-01T09:00:00'' sheet_header_only) =
     [expected, [Str ''u3'', Str [], Num 5, Str ''2024-01-01T09:00:00'', Str ''pending'']]"
  by (simp add: add_help_request_def append_row_def Let_def ensure_headers_def row_values_def
      rstrip_def expected_def blank_def sheet_header_only_def)

text \<open>
  C2: pressing "Request Help" never reaches \<open>add_help_request\<close>. The argument \<^verbatim>\<open>rating\<close> is
  bound neither in \<^verbatim>\<open>show_student_view\<close> nor at module level nor as a built-in, so for every
  session, identifier, clock reading and sheet the view ends in \<^verbatim>\<open>NameError\<close>: no row is
  written and no success is reported.
\<close>

theorem show_student_view_name_error:
  "show_student_view session True request_id now ws = Inl (NameError ''rating'')"
  by (simp add: show_student_view_def lookup_name_def module_globals_def builtins_def)


section \<open>Resetting the queue\<close>

text \<open>
  C10: \<open>clear_all\<close> is one \<open>resize\<close> to a single row and no \<open>update\<close>. Whatever row 1 holds,
  schema or not, it holds it afterwards, cell by cell; only the rows below are gone.
\<close>

theorem clear_all_keeps_row_1:
  "row_values (clear_all ws) 1 = row_values ws 1
   \<and> (\<forall>c. cell_at (clear_all ws) 1 c = cell_at ws 1 c)
   \<and> length (grid (clear_all ws)) = 1
   \<and> writes (clear_all ws) = writes ws @ [Resize 1]"
  by (cases "grid ws")
    (simp_all add: clear_all_def resize_def row_values_def cell_at_def nth_cell_def)

text \<open>A header that is not the schema survives the reset.\<close>

theorem clear_all_keeps_row_1_witness:
  "row_values (clear_all sheet_wrong_header) 1 = [Str ''who'', Str ''level'']
   \<and> row_values (clear_all sheet_wrong_header) 1 \<noteq> expected
   \<and> grid (clear_all sheet_wrong_header) = [[Str ''who'', Str ''level'']]"
  using clear_all_keeps_row_1 [of sheet_wrong_header]
  by (simp add: row_values_def rstrip_def blank_def expected_def clear_all_def resize_def
      sheet_wrong_header_def)


lemma row_values_clear_all: "row_values (clear_all ws) (Suc 0) = row_values ws (Suc 0)"
  by (cases "grid ws") (simp_all add: clear_all_def resize_def row_values_def)

lemma get_all_records_clear_all: "get_all_records (clear_all ws) = []"
  by (cases "grid ws") (simp_all add: clear_all_def resize_def get_all_records_def)

text \<open>
  C9: on a sheet whose header row is the schema, \<open>clear_all\<close> leaves no record, the listing
  of pending requests that follows is empty and writes nothing, and the header row is
  still the schema.
\<close>

theorem clear_all_empties_queue:
  "row_values ws 1 = expected \<Longrightarrow>
     get_all_records (clear_all ws) = []
     \<and> list_pending (clear_all ws) = (clear_all ws, [])
     \<and> row_values (clear_all ws) 1 = expected"
  by (simp add: get_all_records_clear_all row_values_clear_all list_pending_def
      load_requests_def ensure_headers_ok)

text \<open>Resetting the sheet with one request leaves the header row alone.\<close>

theorem clear_all_empties_queue_witness:
  "row_values sheet_one_request 1 = expected
   \<and> list_pending (clear_all sheet_one_request) = (\<lparr>grid = [expected], writes = [Resize 1]\<rparr>, [])
   \<and> row_values (clear_all sheet_one_request) 1 = expected"
proof -
  have h: "row_values sheet_one_request 1 = expected"
    by (simp add: sheet_one_request_def row_values_def)
  have c: "clear_all sheet_one_request = \<lparr>grid = [expected], writes = [Resize 1]\<rparr>"
    by (simp add: sheet_one_request_def clear_all_def resize_def)
  from h c clear_all_empties_queue [OF h] show ?thesis by simp
qed


section \<open>Marking a request as helped\<close>












section \<open>Listing the pending requests\<close>



lemma less_eq_cell_simps2 [simp]:
  "Num a < Num b \<longleftrightarrow> a < b" "Str s < Str t \<longleftrightarrow> s < t" "Num a < Str t" "\<not> Str s < Num b"
  by (auto simp: less_cell_def)



section \<open>Submitting, then listing\<close>




lemma length_pad: "length (pad n r) = max n (length r)"
  by (simp add: pad_def)









section \<open>The first matching row\<close>


lemma get_all_records_Cons:
  "grid ws = keys # rows \<Longrightarrow> get_all_records ws = map (\<lambda>r. zip keys (pad (length keys) r)) rows"
  by (simp add: get_all_records_def)





section \<open>Marking, then listing\<close>







section \<open>The columns of the loaded frame\<close>

text \<open>
  The instructor view indexes the frame by \<^verbatim>\<open>status\<close>, \<^verbatim>\<open>rating\<close> and \<^verbatim>\<open>timestamp\<close>. Since
  \<open>load_requests\<close> ensures the header first, every record it returns binds all five names
  of the schema: none of these look-ups can miss a column.
\<close>

lemma get_zip_pad_None: "get (zip keys (pad (length keys) r)) k = None \<longleftrightarrow> k \<notin> set keys"
proof -
  have "map fst (zip keys (pad (length keys) r)) = keys"
    by (simp add: length_pad map_fst_zip_take)
  then have "fst ` set (rev (zip keys (pad (length keys) r))) = set keys"
    by (metis set_map set_rev)
  then show ?thesis
    by (simp add: get_def map_of_eq_None_iff del: set_rev)
qed

lemma loaded_records_bind_schema:
  assumes "r \<in> set (snd (load_requests ws))" and "k \<in> set expected"
  shows "get r k \<noteq> None"
proof -
  have five: "take 5 (row_values (ensure_headers ws) (Suc 0)) = expected"
    by (rule ensure_headers_first_five)
  from assms(1) have r: "r \<in> set (get_all_records (ensure_headers ws))"
    by (simp add: load_requests_def Let_def split: if_splits)
  then obtain keys rows where g: "grid (ensure_headers ws) = keys # rows"
    by (cases "grid (ensure_headers ws)") (auto simp: get_all_records_def)
  obtain bs where "keys = rstrip keys @ bs"
    using rstrip_split by blast
  moreover have "set expected \<subseteq> set (rstrip keys)"
    using five g by (metis One_nat_def row_values_1_Cons set_take_subset)
  ultimately have "k \<in> set keys"
    using assms(2) by (metis UnCI set_append subsetD)
  moreover from r g obtain row where "r = zip keys (pad (length keys) row)"
    by (auto simp: get_all_records_Cons)
  ultimately show ?thesis
    by (simp add: get_zip_pad_None)
qed

end
